theory Spec2Isabelle
  imports Main "HOL-Library.FSet" "HOL-Library.Char_ord" "HOL-Library.List_Lexorder"
begin

section \<open>Python values used by \<^verbatim>\<open>main.py\<close>\<close>

subsection \<open>Exceptions\<close>

text \<open>
  Every \<^verbatim>\<open>raise\<close> of the source raises \<^verbatim>\<open>ValueError\<close> with a message; a
  failed dictionary subscript raises \<^verbatim>\<open>KeyError\<close> with the key, and subscripting
  \<^verbatim>\<open>None\<close> (the default of the \<^verbatim>\<open>pricing\<close> parameter) raises \<^verbatim>\<open>TypeError\<close>.
\<close>

datatype error = ValueError string | KeyError string | TypeError string

subsection \<open>Binary floating point\<close>

text \<open>
  A Python \<^verbatim>\<open>float\<close> is an IEEE 754 binary64 number. A finite one is an integer
  mantissa times a power of two; \<open>Dbl m e\<close> stands for \<open>m * 2 ^ e\<close>. Every
  arithmetic operation computes the exact result and rounds it to 53 significant bits,
  ties to the even mantissa. The exponent range of binary64 (overflow to infinity,
  subnormal numbers), signed zero and NaN are not represented: the prices of the catalog
  lie between 200 and 1000, far inside the normal range.
\<close>

datatype double = Dbl (mant: int) (expo: int)

definition valof :: "double \<Rightarrow> rat" where
  "valof d = (if 0 \<le> expo d then of_int (mant d * 2 ^ nat (expo d))
              else of_int (mant d) / of_int (2 ^ nat (- expo d)))"

text \<open>The number of binary digits of a positive integer (\<^verbatim>\<open>int.bit_length\<close>).\<close>

function bit_length :: "int \<Rightarrow> nat" where
  "bit_length n = (if n \<le> 0 then 0 else Suc (bit_length (n div 2)))"
  by pat_completeness auto
termination
  by (relation "measure nat") auto

declare bit_length.simps [simp del]

text \<open>\<open>rne a s\<close> is \<open>a / 2 ^ s\<close>, for \<open>a \<ge> 0\<close>, rounded to the nearest integer, ties to even.\<close>

definition rne :: "int \<Rightarrow> nat \<Rightarrow> int" where
  "rne a s = (let q = a div 2 ^ s; r = a mod 2 ^ s in
     if 2 * r < 2 ^ s then q
     else if 2 ^ s < 2 * r then q + 1
     else if even q then q else q + 1)"

text \<open>\<open>rnd m e\<close> is the binary64 number nearest to the exact value \<open>m * 2 ^ e\<close>.\<close>

definition rnd :: "int \<Rightarrow> int \<Rightarrow> double" where
  "rnd m e = (let a = \<bar>m\<bar>; n = bit_length a in
     if n \<le> 53 then Dbl m e
     else Dbl (sgn m * rne a (n - 53)) (e + int (n - 53)))"

text \<open>Conversion of a Python \<^verbatim>\<open>int\<close>, as the mixed operations \<^verbatim>\<open>int * float\<close> and
  \<^verbatim>\<open>float + int\<close> perform it on their integer operand.\<close>

definition d_of_int :: "int \<Rightarrow> double" where
  "d_of_int i = rnd i 0"

definition dmul :: "double \<Rightarrow> double \<Rightarrow> double" where
  "dmul x y = rnd (mant x * mant y) (expo x + expo y)"

definition dadd :: "double \<Rightarrow> double \<Rightarrow> double" where
  "dadd x y = (let e = min (expo x) (expo y) in
     rnd (mant x * 2 ^ nat (expo x - e) + mant y * 2 ^ nat (expo y - e)) e)"

text \<open>The literals \<^verbatim>\<open>1.0\<close>, \<^verbatim>\<open>1.2\<close> and \<^verbatim>\<open>1.4\<close>: the binary64 numbers nearest to
  the decimal fractions (\<^verbatim>\<open>0x1.3333333333333p+0\<close> and \<^verbatim>\<open>0x1.6666666666666p+0\<close>).\<close>

definition lit_1_0 :: double where "lit_1_0 = Dbl 1 0"
definition lit_1_2 :: double where "lit_1_2 = Dbl 5404319552844595 (- 52)"
definition lit_1_4 :: double where "lit_1_4 = Dbl 6305039478318694 (- 52)"

subsection \<open>Strings\<close>

text \<open>
  A Python \<^verbatim>\<open>str\<close> is modelled as a \<open>string\<close>, one \<open>char\<close> for each code
  point below 256. \<open>join sep xs\<close> is \<^verbatim>\<open>sep.join(xs)\<close>, \<open>strip\<close> is
  \<^verbatim>\<open>str.strip()\<close> with the white space of that range, \<open>contains sub s\<close> is
  \<^verbatim>\<open>sub in s\<close>.
\<close>

fun join :: "string \<Rightarrow> string list \<Rightarrow> string" where
  "join sep [] = []"
| "join sep [x] = x"
| "join sep (x # y # ys) = x @ sep @ join sep (y # ys)"

definition is_space :: "char \<Rightarrow> bool" where
  "is_space c = (let n = (of_char c :: int) in
     (9 \<le> n \<and> n \<le> 13) \<or> (28 \<le> n \<and> n \<le> 32) \<or> n = 133 \<or> n = 160)"

definition strip :: "string \<Rightarrow> string" where
  "strip s = rev (dropWhile is_space (rev (dropWhile is_space s)))"

fun starts_with :: "string \<Rightarrow> string \<Rightarrow> bool" where
  "starts_with [] s = True"
| "starts_with (c # cs) [] = False"
| "starts_with (c # cs) (d # ds) = (c = d \<and> starts_with cs ds)"

fun contains :: "string \<Rightarrow> string \<Rightarrow> bool" where
  "contains sub [] = (sub = [])"
| "contains sub (d # ds) = (starts_with sub (d # ds) \<or> contains sub ds)"

definition digit :: "int \<Rightarrow> char" where
  "digit d = ''0123456789'' ! nat d"

function digits :: "int \<Rightarrow> string" where
  "digits n = (if n < 10 then [digit n] else digits (n div 10) @ [digit (n mod 10)])"
  by pat_completeness auto
termination
  by (relation "measure nat") auto

declare digits.simps [simp del]

text \<open>\<^verbatim>\<open>str(i)\<close>, as the f-strings format an integer.\<close>

definition str_of_int :: "int \<Rightarrow> string" where
  "str_of_int i = (if i < 0 then CHR ''-'' # digits (- i) else digits i)"

text \<open>
  \<^verbatim>\<open>f"{x:.2f}"\<close>: the exact value of the double, rounded to hundredths (ties to even),
  printed with two decimals.
\<close>

definition cents :: "double \<Rightarrow> int" where
  "cents d = (if 0 \<le> expo d then \<bar>mant d\<bar> * 100 * 2 ^ nat (expo d)
              else rne (\<bar>mant d\<bar> * 100) (nat (- expo d)))"

definition format_2f :: "double \<Rightarrow> string" where
  "format_2f d = (if mant d < 0 then ''-'' else []) @ digits (cents d div 100) @ ''.''
     @ [digit (cents d mod 100 div 10), digit (cents d mod 10)]"

subsection \<open>Dictionaries and sets\<close>

text \<open>
  A \<^verbatim>\<open>dict\<close> with string keys is an association list in insertion order.
  \<open>getitem d k\<close> is the subscript \<^verbatim>\<open>d[k]\<close>, \<open>has_key d k\<close> is \<^verbatim>\<open>k in d\<close> and
  \<open>keys d\<close> is what iterating over the dictionary gives.
\<close>

type_synonym 'v dict = "(string \<times> 'v) list"

definition getitem :: "'v dict \<Rightarrow> string \<Rightarrow> error + 'v" where
  "getitem d k = (case map_of d k of None \<Rightarrow> Inl (KeyError k) | Some v \<Rightarrow> Inr v)"

definition has_key :: "'v dict \<Rightarrow> string \<Rightarrow> bool" where
  "has_key d k = (map_of d k \<noteq> None)"

definition keys :: "'v dict \<Rightarrow> string list" where
  "keys d = map fst d"

text \<open>
  A \<^verbatim>\<open>set\<close> of strings is a finite set. The order in which \<^verbatim>\<open>tuple(s)\<close> lists
  its elements depends on the hashes of the strings and is not fixed by the program: an
  iteration order is any function that lists every finite set without repetition, and
  the functions that build an order take one as a parameter.
\<close>

typedef set_order = "{f :: string fset \<Rightarrow> string list. \<forall>S. distinct (f S) \<and> fset_of_list (f S) = S}"
  morphisms tuple_of Abs_set_order
proof
  have "distinct (sorted_list_of_fset S)" for S :: "string fset"
    by (simp add: sorted_list_of_fset.rep_eq)
  then show "sorted_list_of_fset \<in> {f :: string fset \<Rightarrow> string list. \<forall>S. distinct (f S) \<and> fset_of_list (f S) = S}"
    by simp
qed

setup_lifting type_definition_set_order

lift_definition sorted_order :: set_order is sorted_list_of_fset
proof (intro allI conjI)
  show "distinct (sorted_list_of_fset S)" for S :: "string fset"
    by (simp add: sorted_list_of_fset.rep_eq)
  show "fset_of_list (sorted_list_of_fset S) = S" for S :: "string fset"
    by simp
qed

section \<open>The class \<^verbatim>\<open>CoffeeOrder\<close>\<close>

text \<open>
  The \<^verbatim>\<open>pricing\<close> dictionary always has the same five keys; it is a record of
  its entries. Prices are Python integers, size multipliers are floats.
\<close>

record pricing =
  base_prices :: "int dict"
  size_multipliers :: "double dict"
  milk_prices :: "int dict"
  syrup_price :: int
  ice_price :: int

text \<open>
  \<^verbatim>\<open>_calculate_price\<close>. The three subscripts are evaluated in the order of the
  source, and the first one that fails raises. The sum of the prices is an integer; it
  is converted to a float by the multiplication, and the ice price by the addition.
\<close>

definition calculate_price ::
  "string \<Rightarrow> string \<Rightarrow> string \<Rightarrow> string list \<Rightarrow> bool \<Rightarrow> pricing option \<Rightarrow> error + double" where
  "calculate_price base sz milk syrups iced pricing =
     (case pricing of
        None \<Rightarrow> Inl (TypeError (CHR 0x27 # ''NoneType'' @ CHR 0x27 # '' object is not subscriptable''))
      | Some p \<Rightarrow>
     (case getitem (base_prices p) base of Inl e \<Rightarrow> Inl e | Inr base_price \<Rightarrow>
     (case getitem (size_multipliers p) sz of Inl e \<Rightarrow> Inl e | Inr size_multiplier \<Rightarrow>
     (case getitem (milk_prices p) milk of Inl e \<Rightarrow> Inl e | Inr milk_price \<Rightarrow>
        (let syrup_total = syrup_price p * int (length syrups);
             ice = (if iced then ice_price p else 0);
             total = dmul (d_of_int (base_price + milk_price + syrup_total)) size_multiplier
         in Inr (dadd total (d_of_int ice)))))))"

text \<open>\<^verbatim>\<open>_generate_description\<close>.\<close>

definition generate_description ::
  "string \<Rightarrow> string \<Rightarrow> string \<Rightarrow> string list \<Rightarrow> int \<Rightarrow> bool \<Rightarrow> string" where
  "generate_description base sz milk syrups sugar iced =
     (let extra_parts =
            (if milk \<noteq> ''none'' then [''with '' @ milk @ '' milk''] else [])
          @ (if syrups \<noteq> [] then [''+'' @ join '', '' syrups] else [])
          @ (if iced then [''(iced)''] else [])
          @ (if 0 < sugar then [str_of_int sugar @ '' tsp sugar''] else [])
      in if extra_parts = [] then []
         else sz @ '' '' @ base @ '' '' @ strip (join '' '' extra_parts))"

text \<open>
  An order object. The fields \<open>o_base\<close>, ..., \<open>o_description\<close> are the attributes
  \<^verbatim>\<open>base\<close>, ..., \<^verbatim>\<open>description\<close>; \<open>o_syrups\<close> is a tuple.
\<close>

record coffee_order =
  o_base :: string
  o_size :: string
  o_milk :: string
  o_syrups :: "string list"
  o_sugar :: int
  o_iced :: bool
  o_price :: double
  o_description :: string

text \<open>\<^verbatim>\<open>CoffeeOrder.__init__\<close>: the fields are stored, then the price and the
  description are computed from them, once.\<close>

definition CoffeeOrder ::
  "string \<Rightarrow> string \<Rightarrow> string \<Rightarrow> string list \<Rightarrow> int \<Rightarrow> bool \<Rightarrow> pricing option
    \<Rightarrow> error + coffee_order" where
  "CoffeeOrder base sz milk syrups sugar iced pricing =
     (case calculate_price base sz milk syrups iced pricing of
        Inl e \<Rightarrow> Inl e
      | Inr p \<Rightarrow> Inr \<lparr>o_base = base, o_size = sz, o_milk = milk, o_syrups = syrups,
                      o_sugar = sugar, o_iced = iced, o_price = p,
                      o_description = generate_description base sz milk syrups sugar iced\<rparr>)"

text \<open>\<^verbatim>\<open>__str__\<close>.\<close>

definition str_order :: "coffee_order \<Rightarrow> string" where
  "str_order ord = (if strip (o_description ord) = [] then format_2f (o_price ord) @ '' RUB''
                    else o_description ord)"

section \<open>The class \<^verbatim>\<open>CoffeeOrderBuilder\<close>\<close>

definition BASE_PRICES :: "int dict" where
  "BASE_PRICES = [(''espresso'', 200), (''americano'', 250), (''latte'', 300), (''cappuccino'', 320)]"

definition SIZE_MULTIPLIERS :: "double dict" where
  "SIZE_MULTIPLIERS = [(''small'', lit_1_0), (''medium'', lit_1_2), (''large'', lit_1_4)]"

definition MILK_PRICES :: "int dict" where
  "MILK_PRICES = [(''whole'', 30), (''skim'', 30), (''oat'', 60), (''soy'', 50), (''none'', 0)]"

definition SYRUP_PRICE :: int where "SYRUP_PRICE = 40"
definition ICE_PRICE :: int where "ICE_PRICE = 20"
definition MAX_SYRUPS :: int where "MAX_SYRUPS = 4"
definition MAX_SUGAR :: int where "MAX_SUGAR = 5"

text \<open>
  The state of a builder. \<open>b_base\<close> and \<open>b_size\<close> are \<open>None\<close> until they are set;
  \<open>b_syrups\<close> is the set object.
\<close>

record builder =
  b_base :: "string option"
  b_size :: "string option"
  b_milk :: string
  b_syrups :: "string fset"
  b_sugar :: int
  b_iced :: bool

text \<open>\<^verbatim>\<open>CoffeeOrderBuilder.__init__\<close>.\<close>

definition init :: builder where
  "init = \<lparr>b_base = None, b_size = None, b_milk = ''none'', b_syrups = {||},
           b_sugar = 0, b_iced = False\<rparr>"

text \<open>
  A method call on a builder either returns the builder (\<open>None\<close>) or raises (\<open>Some e\<close>);
  in both cases it leaves a state behind, the second component.
\<close>

type_synonym outcome = "error option \<times> builder"

definition set_base :: "string \<Rightarrow> builder \<Rightarrow> outcome" where
  "set_base base b =
     (if \<not> has_key BASE_PRICES base
      then (Some (ValueError (''Base must be one of: '' @ join '', '' (keys BASE_PRICES))), b)
      else (None, b\<lparr>b_base := Some base\<rparr>))"

definition set_size :: "string \<Rightarrow> builder \<Rightarrow> outcome" where
  "set_size sz b =
     (if \<not> has_key SIZE_MULTIPLIERS sz
      then (Some (ValueError (''Size must be one of: '' @ join '', '' (keys SIZE_MULTIPLIERS))), b)
      else (None, b\<lparr>b_size := Some sz\<rparr>))"

definition set_milk :: "string \<Rightarrow> builder \<Rightarrow> outcome" where
  "set_milk milk b =
     (if \<not> has_key MILK_PRICES milk
      then (Some (ValueError (''Milk must be one of: '' @ join '', '' (keys MILK_PRICES))), b)
      else (None, b\<lparr>b_milk := milk\<rparr>))"

definition add_syrup :: "string \<Rightarrow> builder \<Rightarrow> outcome" where
  "add_syrup name b =
     (if MAX_SYRUPS \<le> int (fcard (b_syrups b))
      then (Some (ValueError (''Maximum '' @ str_of_int MAX_SYRUPS @ '' syrups allowed'')), b)
      else (None, b\<lparr>b_syrups := finsert name (b_syrups b)\<rparr>))"

definition set_sugar :: "int \<Rightarrow> builder \<Rightarrow> outcome" where
  "set_sugar teaspoons b =
     (if \<not> (0 \<le> teaspoons \<and> teaspoons \<le> MAX_SUGAR)
      then (Some (ValueError (''Sugar must be between 0 and '' @ str_of_int MAX_SUGAR)), b)
      else (None, b\<lparr>b_sugar := teaspoons\<rparr>))"

definition set_iced :: "bool \<Rightarrow> builder \<Rightarrow> outcome" where
  "set_iced iced b = (None, b\<lparr>b_iced := iced\<rparr>)"

definition clear_extras :: "builder \<Rightarrow> outcome" where
  "clear_extras b = (None, b\<lparr>b_milk := ''none'', b_syrups := {||}, b_sugar := 0, b_iced := False\<rparr>)"

text \<open>The dictionary that \<^verbatim>\<open>build\<close> passes to the order.\<close>

definition catalog :: pricing where
  "catalog = \<lparr>base_prices = BASE_PRICES, size_multipliers = SIZE_MULTIPLIERS,
              milk_prices = MILK_PRICES, syrup_price = SYRUP_PRICE, ice_price = ICE_PRICE\<rparr>"

text \<open>
  \<^verbatim>\<open>build\<close> reads the builder and does not change it. \<open>io\<close> is the iteration order
  of \<^verbatim>\<open>tuple(self.syrups)\<close>.
\<close>

definition build :: "set_order \<Rightarrow> builder \<Rightarrow> error + coffee_order" where
  "build io b =
     (case b_base b of
        None \<Rightarrow> Inl (ValueError ''Base is required'')
      | Some base \<Rightarrow>
     (case b_size b of
        None \<Rightarrow> Inl (ValueError ''Size is required'')
      | Some sz \<Rightarrow>
          CoffeeOrder base sz (b_milk b) (tuple_of io (b_syrups b)) (b_sugar b) (b_iced b)
            (Some catalog)))"

section \<open>Programs that use a builder\<close>

text \<open>
  A client holds one builder and the orders it has built so far. It calls the methods
  of the builder in any sequence; a call that raises is caught and the client goes on.
  \<open>step\<close> is one call, \<open>run\<close> a sequence of calls.
\<close>

datatype call =
    SetBase string
  | SetSize string
  | SetMilk string
  | AddSyrup string
  | SetSugar int
  | SetIced bool
  | ClearExtras
  | Build

record world =
  the_builder :: builder
  orders :: "coffee_order list"

definition on_builder :: "(builder \<Rightarrow> outcome) \<Rightarrow> world \<Rightarrow> error option \<times> world" where
  "on_builder f w = (case f (the_builder w) of (r, b') \<Rightarrow> (r, w\<lparr>the_builder := b'\<rparr>))"

fun step :: "set_order \<Rightarrow> call \<Rightarrow> world \<Rightarrow> error option \<times> world" where
  "step io (SetBase x) w = on_builder (set_base x) w"
| "step io (SetSize x) w = on_builder (set_size x) w"
| "step io (SetMilk x) w = on_builder (set_milk x) w"
| "step io (AddSyrup x) w = on_builder (add_syrup x) w"
| "step io (SetSugar n) w = on_builder (set_sugar n) w"
| "step io (SetIced f) w = on_builder (set_iced f) w"
| "step io ClearExtras w = on_builder clear_extras w"
| "step io Build w =
     (case build io (the_builder w) of
        Inl e \<Rightarrow> (Some e, w)
      | Inr ord \<Rightarrow> (None, w\<lparr>orders := orders w @ [ord]\<rparr>))"

fun run :: "set_order \<Rightarrow> call list \<Rightarrow> world \<Rightarrow> world" where
  "run io [] w = w"
| "run io (c # cs) w = run io cs (snd (step io c w))"

text \<open>
  The builder states that a client can reach from a new builder. A call that raises
  leaves a state too, and \<^verbatim>\<open>build\<close> does not change the builder, so it has no rule.
\<close>

inductive reachable :: "builder \<Rightarrow> bool" where
  r_init: "reachable init"
| r_set_base: "reachable b \<Longrightarrow> reachable (snd (set_base x b))"
| r_set_size: "reachable b \<Longrightarrow> reachable (snd (set_size x b))"
| r_set_milk: "reachable b \<Longrightarrow> reachable (snd (set_milk x b))"
| r_add_syrup: "reachable b \<Longrightarrow> reachable (snd (add_syrup x b))"
| r_set_sugar: "reachable b \<Longrightarrow> reachable (snd (set_sugar n b))"
| r_set_iced: "reachable b \<Longrightarrow> reachable (snd (set_iced f b))"
| r_clear_extras: "reachable b \<Longrightarrow> reachable (snd (clear_extras b))"

section \<open>Objects and references\<close>

text \<open>
  In Python an attribute holds a reference to an object. Strings, integers, booleans,
  floats and tuples cannot be changed, so for them a reference is as good as the value.
  A set can: \<^verbatim>\<open>add\<close> and \<^verbatim>\<open>clear\<close> change the set object in place, and every
  reference to it sees the change. The heap holds the set objects and the tuple objects,
  each kind at its addresses; an object is never removed. The attribute \<^verbatim>\<open>syrups\<close>
  of a builder always refers to the set that \<^verbatim>\<open>__init__\<close> created; the attribute
  \<^verbatim>\<open>syrups\<close> of an order refers to whatever object its constructor was given.
\<close>

record heap =
  set_objs :: "string fset list"
  tuple_objs :: "string list list"

datatype syrups_ref = SetRef nat | TupleRef nat

text \<open>Iterating over the object behind a reference (\<^verbatim>\<open>len\<close>, \<^verbatim>\<open>join\<close>, truth value).\<close>

definition elems :: "set_order \<Rightarrow> heap \<Rightarrow> syrups_ref \<Rightarrow> string list" where
  "elems io h r = (case r of SetRef a \<Rightarrow> tuple_of io (set_objs h ! a)
                           | TupleRef a \<Rightarrow> tuple_objs h ! a)"

record builder_obj =
  bo_base :: "string option"
  bo_size :: "string option"
  bo_milk :: string
  bo_syrups :: nat
  bo_sugar :: int
  bo_iced :: bool

record order_obj =
  oo_base :: string
  oo_size :: string
  oo_milk :: string
  oo_syrups :: syrups_ref
  oo_sugar :: int
  oo_iced :: bool
  oo_price :: double
  oo_description :: string

text \<open>\<^verbatim>\<open>CoffeeOrderBuilder()\<close>: \<^verbatim>\<open>__init__\<close> creates a new, empty set object.\<close>

definition h_new :: "heap \<Rightarrow> heap \<times> builder_obj" where
  "h_new h = (h\<lparr>set_objs := set_objs h @ [{||}]\<rparr>,
     \<lparr>bo_base = None, bo_size = None, bo_milk = ''none'', bo_syrups = length (set_objs h),
      bo_sugar = 0, bo_iced = False\<rparr>)"

text \<open>
  The methods of the builder, on the heap. They return the error raised, if any, the
  heap and the builder object after the call.
\<close>

type_synonym h_outcome = "error option \<times> heap \<times> builder_obj"

definition h_set_base :: "string \<Rightarrow> heap \<Rightarrow> builder_obj \<Rightarrow> h_outcome" where
  "h_set_base base h bo =
     (if \<not> has_key BASE_PRICES base
      then (Some (ValueError (''Base must be one of: '' @ join '', '' (keys BASE_PRICES))), h, bo)
      else (None, h, bo\<lparr>bo_base := Some base\<rparr>))"

definition h_set_size :: "string \<Rightarrow> heap \<Rightarrow> builder_obj \<Rightarrow> h_outcome" where
  "h_set_size sz h bo =
     (if \<not> has_key SIZE_MULTIPLIERS sz
      then (Some (ValueError (''Size must be one of: '' @ join '', '' (keys SIZE_MULTIPLIERS))), h, bo)
      else (None, h, bo\<lparr>bo_size := Some sz\<rparr>))"

definition h_set_milk :: "string \<Rightarrow> heap \<Rightarrow> builder_obj \<Rightarrow> h_outcome" where
  "h_set_milk milk h bo =
     (if \<not> has_key MILK_PRICES milk
      then (Some (ValueError (''Milk must be one of: '' @ join '', '' (keys MILK_PRICES))), h, bo)
      else (None, h, bo\<lparr>bo_milk := milk\<rparr>))"

text \<open>\<^verbatim>\<open>self.syrups.add(name)\<close> changes the set object; the reference stays.\<close>

definition h_add_syrup :: "string \<Rightarrow> heap \<Rightarrow> builder_obj \<Rightarrow> h_outcome" where
  "h_add_syrup name h bo =
     (if MAX_SYRUPS \<le> int (fcard (set_objs h ! bo_syrups bo))
      then (Some (ValueError (''Maximum '' @ str_of_int MAX_SYRUPS @ '' syrups allowed'')), h, bo)
      else (None,
            h\<lparr>set_objs := (set_objs h)[bo_syrups bo := finsert name (set_objs h ! bo_syrups bo)]\<rparr>,
            bo))"

definition h_set_sugar :: "int \<Rightarrow> heap \<Rightarrow> builder_obj \<Rightarrow> h_outcome" where
  "h_set_sugar teaspoons h bo =
     (if \<not> (0 \<le> teaspoons \<and> teaspoons \<le> MAX_SUGAR)
      then (Some (ValueError (''Sugar must be between 0 and '' @ str_of_int MAX_SUGAR)), h, bo)
      else (None, h, bo\<lparr>bo_sugar := teaspoons\<rparr>))"

definition h_set_iced :: "bool \<Rightarrow> heap \<Rightarrow> builder_obj \<Rightarrow> h_outcome" where
  "h_set_iced iced h bo = (None, h, bo\<lparr>bo_iced := iced\<rparr>)"

text \<open>\<^verbatim>\<open>self.syrups.clear()\<close> empties the set object; the reference stays.\<close>

definition h_clear_extras :: "heap \<Rightarrow> builder_obj \<Rightarrow> h_outcome" where
  "h_clear_extras h bo =
     (None,
      h\<lparr>set_objs := (set_objs h)[bo_syrups bo := {||}]\<rparr>,
      bo\<lparr>bo_milk := ''none'', bo_sugar := 0, bo_iced := False\<rparr>)"

text \<open>
  \<^verbatim>\<open>CoffeeOrder.__init__\<close> with a reference for \<^verbatim>\<open>syrups\<close>: the reference is stored,
  and the price and the description are computed from the object behind it.
\<close>

definition h_CoffeeOrder ::
  "set_order \<Rightarrow> heap \<Rightarrow> string \<Rightarrow> string \<Rightarrow> string \<Rightarrow> syrups_ref \<Rightarrow> int \<Rightarrow> bool
    \<Rightarrow> pricing option \<Rightarrow> error + order_obj" where
  "h_CoffeeOrder io h base sz milk syrups sugar iced pricing =
     (case calculate_price base sz milk (elems io h syrups) iced pricing of
        Inl e \<Rightarrow> Inl e
      | Inr p \<Rightarrow> Inr \<lparr>oo_base = base, oo_size = sz, oo_milk = milk, oo_syrups = syrups,
                      oo_sugar = sugar, oo_iced = iced, oo_price = p,
                      oo_description =
                        generate_description base sz milk (elems io h syrups) sugar iced\<rparr>)"

text \<open>
  \<^verbatim>\<open>build\<close>: after the two tests, \<^verbatim>\<open>tuple(self.syrups)\<close> creates a new tuple object
  with the elements that the set has at that moment, and the constructor gets the
  reference to that tuple.
\<close>

definition h_build :: "set_order \<Rightarrow> heap \<Rightarrow> builder_obj \<Rightarrow> (error + order_obj) \<times> heap" where
  "h_build io h bo =
     (case bo_base bo of
        None \<Rightarrow> (Inl (ValueError ''Base is required''), h)
      | Some base \<Rightarrow>
     (case bo_size bo of
        None \<Rightarrow> (Inl (ValueError ''Size is required''), h)
      | Some sz \<Rightarrow>
          (let h' = h\<lparr>tuple_objs := tuple_objs h @ [tuple_of io (set_objs h ! bo_syrups bo)]\<rparr>;
               syrups = TupleRef (length (tuple_objs h))
           in (h_CoffeeOrder io h' base sz (bo_milk bo) syrups (bo_sugar bo) (bo_iced bo)
                 (Some catalog), h'))))"

text \<open>
  A client with its heap, its builder and the order objects it holds. \<open>h_step\<close> is one
  call, \<open>h_run\<close> a sequence of calls; a call that raises is caught.
\<close>

record client =
  c_heap :: heap
  c_builder :: builder_obj
  c_orders :: "order_obj list"

definition new_client :: client where
  "new_client = (case h_new \<lparr>set_objs = [], tuple_objs = []\<rparr> of
     (h, bo) \<Rightarrow> \<lparr>c_heap = h, c_builder = bo, c_orders = []\<rparr>)"

definition on_self :: "(heap \<Rightarrow> builder_obj \<Rightarrow> h_outcome) \<Rightarrow> client \<Rightarrow> error option \<times> client" where
  "on_self f c = (case f (c_heap c) (c_builder c) of
     (r, h, bo) \<Rightarrow> (r, c\<lparr>c_heap := h, c_builder := bo\<rparr>))"

fun h_step :: "set_order \<Rightarrow> call \<Rightarrow> client \<Rightarrow> error option \<times> client" where
  "h_step io (SetBase x) c = on_self (h_set_base x) c"
| "h_step io (SetSize x) c = on_self (h_set_size x) c"
| "h_step io (SetMilk x) c = on_self (h_set_milk x) c"
| "h_step io (AddSyrup x) c = on_self (h_add_syrup x) c"
| "h_step io (SetSugar n) c = on_self (h_set_sugar n) c"
| "h_step io (SetIced f) c = on_self (h_set_iced f) c"
| "h_step io ClearExtras c = on_self h_clear_extras c"
| "h_step io Build c =
     (case h_build io (c_heap c) (c_builder c) of
        (Inl e, h) \<Rightarrow> (Some e, c\<lparr>c_heap := h\<rparr>)
      | (Inr ord, h) \<Rightarrow> (None, c\<lparr>c_heap := h, c_orders := c_orders c @ [ord]\<rparr>))"

fun h_run :: "set_order \<Rightarrow> call list \<Rightarrow> client \<Rightarrow> client" where
  "h_run io [] c = c"
| "h_run io (x # xs) c = h_run io xs (snd (h_step io x c))"

text \<open>The clients that a program can reach from a new builder.\<close>

inductive client_reachable :: "set_order \<Rightarrow> client \<Rightarrow> bool" for io where
  c_new: "client_reachable io new_client"
| c_step: "client_reachable io c \<Longrightarrow> client_reachable io (snd (h_step io x c))"

text \<open>
  What a reader of the attributes sees: \<open>load\<close> for the builder, with the elements of
  its set, and \<open>view\<close> for an order, with the elements of the object that its
  \<^verbatim>\<open>syrups\<close> refers to.
\<close>

definition load :: "heap \<Rightarrow> builder_obj \<Rightarrow> builder" where
  "load h bo = \<lparr>b_base = bo_base bo, b_size = bo_size bo, b_milk = bo_milk bo,
     b_syrups = set_objs h ! bo_syrups bo, b_sugar = bo_sugar bo, b_iced = bo_iced bo\<rparr>"

definition view :: "set_order \<Rightarrow> heap \<Rightarrow> order_obj \<Rightarrow> coffee_order" where
  "view io h ord = \<lparr>o_base = oo_base ord, o_size = oo_size ord, o_milk = oo_milk ord,
     o_syrups = elems io h (oo_syrups ord), o_sugar = oo_sugar ord, o_iced = oo_iced ord,
     o_price = oo_price ord, o_description = oo_description ord\<rparr>"

text \<open>The client as the sections above see it: a builder and orders, as values.\<close>

definition values_of :: "set_order \<Rightarrow> client \<Rightarrow> world" where
  "values_of io c = \<lparr>the_builder = load (c_heap c) (c_builder c),
     orders = map (view io (c_heap c)) (c_orders c)\<rparr>"

text \<open>
  The invariant of a client: the builder refers to a set object of the heap, and every
  order refers to a tuple object of the heap.
\<close>

definition ref_ok :: "heap \<Rightarrow> order_obj \<Rightarrow> bool" where
  "ref_ok h ord = (case oo_syrups ord of SetRef a \<Rightarrow> False
                                      | TupleRef a \<Rightarrow> a < length (tuple_objs h))"

definition client_inv :: "client \<Rightarrow> bool" where
  "client_inv c = (bo_syrups (c_builder c) < length (set_objs (c_heap c)) \<and>
     list_all (ref_ok (c_heap c)) (c_orders c))"

section \<open>Auxiliary definitions\<close>

text \<open>What the setters establish: the invariant of every builder a client can reach.\<close>

definition builder_inv :: "builder \<Rightarrow> bool" where
  "builder_inv b =
     ((case b_base b of None \<Rightarrow> True | Some x \<Rightarrow> has_key BASE_PRICES x) \<and>
      (case b_size b of None \<Rightarrow> True | Some x \<Rightarrow> has_key SIZE_MULTIPLIERS x) \<and>
      has_key MILK_PRICES (b_milk b) \<and>
      int (fcard (b_syrups b)) \<le> MAX_SYRUPS \<and>
      0 \<le> b_sugar b \<and> b_sugar b \<le> MAX_SUGAR)"

text \<open>The builder of the first test of the source, after its six calls, and its order.\<close>

definition latte_example :: builder where
  "latte_example = \<lparr>b_base = Some ''latte'', b_size = Some ''medium'', b_milk = ''oat'',
     b_syrups = {|''vanilla''|}, b_sugar = 2, b_iced = True\<rparr>"

definition latte_order :: coffee_order where
  "latte_order = \<lparr>o_base = ''latte'', o_size = ''medium'', o_milk = ''oat'',
     o_syrups = [''vanilla''], o_sugar = 2, o_iced = True,
     o_price = Dbl 8796093022208000 (- 44),
     o_description = ''medium latte with oat milk +vanilla (iced) 2 tsp sugar''\<rparr>"

text \<open>A new builder after four calls of \<^verbatim>\<open>add_syrup\<close> with different names.\<close>

definition four_syrups :: builder where
  "four_syrups = init\<lparr>b_syrups := {|''d'', ''c'', ''b'', ''a''|}\<rparr>"

definition new_world :: world where
  "new_world = \<lparr>the_builder = init, orders = []\<rparr>"


text \<open>The world after the first \<^verbatim>\<open>build\<close> of the first test, and the order that a second
  \<^verbatim>\<open>build\<close> gives after \<^verbatim>\<open>clear_extras()\<close> and \<^verbatim>\<open>set_milk("soy")\<close>.\<close>

definition latte_world :: world where
  "latte_world = \<lparr>the_builder = latte_example, orders = []\<rparr>"




text \<open>
  The price of an order as a function of the integer sum of its base, milk and syrup
  prices, and the sums that the catalog allows with at most four syrups.
\<close>

definition price_of_sum :: "double \<Rightarrow> bool \<Rightarrow> int \<Rightarrow> double" where
  "price_of_sum m iced s = dadd (dmul (d_of_int s) m) (d_of_int (if iced then 20 else 0))"

definition price_check :: "double \<Rightarrow> int \<Rightarrow> bool" where
  "price_check m s = (0 < valof (price_of_sum m False s) \<and>
     valof (price_of_sum m False s) < valof (price_of_sum m True s))"

definition plain_check :: "double \<Rightarrow> int \<Rightarrow> bool" where
  "plain_check m bp = (valof (price_of_sum m False bp) = valof (dmul (d_of_int bp) m))"

definition all_sums :: "int list" where
  "all_sums = concat (map (\<lambda>bp. concat (map (\<lambda>mp. map (\<lambda>n. bp + mp + 40 * n) [0..4])
     (map snd MILK_PRICES))) (map snd BASE_PRICES))"

section \<open>Basic facts\<close>

lemma tuple_of_distinct: "distinct (tuple_of io S)"
  using tuple_of [of io] by auto

lemma fset_of_list_tuple_of: "fset_of_list (tuple_of io S) = S"
  using tuple_of [of io] by auto

lemma set_tuple_of: "set (tuple_of io S) = fset S"
  by (metis fset_of_list_tuple_of fset_of_list.rep_eq)

lemma length_tuple_of: "length (tuple_of io S) = fcard S"
  by (metis distinct_card fcard.rep_eq set_tuple_of tuple_of_distinct)

lemma tuple_of_empty [simp]: "tuple_of io {||} = []"
  using length_tuple_of [of io "{||}"] by (simp add: fcard_fempty)

lemma tuple_of_single [simp]: "tuple_of io {|x|} = [x]"
proof -
  have "length (tuple_of io {|x|}) = 1"
    by (simp add: length_tuple_of fcard_finsert_if fcard_fempty)
  moreover have "set (tuple_of io {|x|}) = {x}"
    by (simp add: set_tuple_of)
  ultimately show ?thesis
    by (cases "tuple_of io {|x|}") auto
qed

lemma has_key_BASE_PRICES:
  "has_key BASE_PRICES x \<longleftrightarrow>
     x = ''espresso'' \<or> x = ''americano'' \<or> x = ''latte'' \<or> x = ''cappuccino''"
  by (simp add: has_key_def BASE_PRICES_def)

lemma has_key_SIZE_MULTIPLIERS:
  "has_key SIZE_MULTIPLIERS x \<longleftrightarrow> x = ''small'' \<or> x = ''medium'' \<or> x = ''large''"
  by (simp add: has_key_def SIZE_MULTIPLIERS_def)

lemma has_key_MILK_PRICES:
  "has_key MILK_PRICES x \<longleftrightarrow>
     x = ''whole'' \<or> x = ''skim'' \<or> x = ''oat'' \<or> x = ''soy'' \<or> x = ''none''"
  by (simp add: has_key_def MILK_PRICES_def)

lemma has_key_getitem: "has_key d k \<Longrightarrow> \<exists>v. map_of d k = Some v \<and> getitem d k = Inr v"
  by (auto simp: has_key_def getitem_def)

lemma str_of_int_MAX_SYRUPS: "str_of_int MAX_SYRUPS = ''4''"
  by code_simp

lemma str_of_int_MAX_SUGAR: "str_of_int MAX_SUGAR = ''5''"
  by code_simp

lemma add_syrup_raises:
  "MAX_SYRUPS \<le> int (fcard (b_syrups b)) \<Longrightarrow>
     add_syrup name b = (Some (ValueError ''Maximum 4 syrups allowed''), b)"
  by (simp add: add_syrup_def str_of_int_MAX_SYRUPS)

lemma add_syrup_returns:
  "int (fcard (b_syrups b)) < MAX_SYRUPS \<Longrightarrow>
     add_syrup name b = (None, b\<lparr>b_syrups := finsert name (b_syrups b)\<rparr>)"
  by (simp add: add_syrup_def)

lemma fcard_four_syrups: "fcard (b_syrups four_syrups) = 4"
  by (simp add: four_syrups_def fcard_finsert_if fcard_fempty)

lemma run_four_syrups:
  "run io [AddSyrup ''a'', AddSyrup ''b'', AddSyrup ''c'', AddSyrup ''d''] new_world
     = \<lparr>the_builder = four_syrups, orders = []\<rparr>"
  by (simp add: new_world_def four_syrups_def init_def on_builder_def add_syrup_def
      MAX_SYRUPS_def fcard_finsert_if fcard_fempty)

subsection \<open>The invariant of the builder\<close>

lemma builder_inv_init: "builder_inv init"
  by (simp add: builder_inv_def init_def has_key_MILK_PRICES MAX_SYRUPS_def MAX_SUGAR_def
      fcard_fempty)

lemma builder_inv_set_base: "builder_inv b \<Longrightarrow> builder_inv (snd (set_base x b))"
  by (simp add: builder_inv_def set_base_def)

lemma builder_inv_set_size: "builder_inv b \<Longrightarrow> builder_inv (snd (set_size x b))"
  by (simp add: builder_inv_def set_size_def)

lemma builder_inv_set_milk: "builder_inv b \<Longrightarrow> builder_inv (snd (set_milk x b))"
  by (simp add: builder_inv_def set_milk_def)

lemma builder_inv_add_syrup: "builder_inv b \<Longrightarrow> builder_inv (snd (add_syrup x b))"
  by (auto simp: builder_inv_def add_syrup_def fcard_finsert_if)

lemma builder_inv_set_sugar: "builder_inv b \<Longrightarrow> builder_inv (snd (set_sugar n b))"
  by (simp add: builder_inv_def set_sugar_def)

lemma builder_inv_set_iced: "builder_inv b \<Longrightarrow> builder_inv (snd (set_iced f b))"
  by (simp add: builder_inv_def set_iced_def)

lemma builder_inv_clear_extras: "builder_inv b \<Longrightarrow> builder_inv (snd (clear_extras b))"
  by (simp add: builder_inv_def clear_extras_def has_key_MILK_PRICES MAX_SYRUPS_def
      MAX_SUGAR_def fcard_fempty)

lemma reachable_inv: "reachable b \<Longrightarrow> builder_inv b"
proof (induction rule: reachable.induct)
  case r_init
  show ?case by (rule builder_inv_init)
next
  case (r_set_base b x)
  then show ?case by (simp add: builder_inv_set_base)
next
  case (r_set_size b x)
  then show ?case by (simp add: builder_inv_set_size)
next
  case (r_set_milk b x)
  then show ?case by (simp add: builder_inv_set_milk)
next
  case (r_add_syrup b x)
  then show ?case by (simp add: builder_inv_add_syrup)
next
  case (r_set_sugar b n)
  then show ?case by (simp add: builder_inv_set_sugar)
next
  case (r_set_iced b f)
  then show ?case by (simp add: builder_inv_set_iced)
next
  case (r_clear_extras b)
  then show ?case by (simp add: builder_inv_clear_extras)
qed

text \<open>Every program of a client keeps the builder among the reachable states.\<close>

lemma reachable_on_builder:
  assumes "reachable (the_builder w)" and "\<And>b. reachable b \<Longrightarrow> reachable (snd (f b))"
  shows "reachable (the_builder (snd (on_builder f w)))"
  using assms(2) [OF assms(1)] by (auto simp: on_builder_def split: prod.split)

lemma reachable_step: "reachable (the_builder w) \<Longrightarrow> reachable (the_builder (snd (step io c w)))"
proof (cases c)
  case Build
  assume "reachable (the_builder w)"
  with Build show ?thesis by (simp split: sum.split)
qed (simp_all add: reachable_on_builder reachable.intros)

lemma reachable_run: "reachable (the_builder w) \<Longrightarrow> reachable (the_builder (run io cs w))"
  by (induction cs arbitrary: w) (simp_all add: reachable_step)

section \<open>Adding syrups\<close>

text \<open>
  Claim C1. With four different names in the set, \<^verbatim>\<open>add_syrup\<close> with a name that is
  already in the set is said to return the builder and to leave the set as it is. The
  code compares the size of the set with the maximum before it looks at the name: after
  the calls with \<open>a\<close>, \<open>b\<close>, \<open>c\<close> and \<open>d\<close> on a new builder, a fifth call with \<open>a\<close>
  raises \<^verbatim>\<open>ValueError\<close>, although \<open>a\<close> is in the set.
\<close>

theorem add_syrup_present_name_at_limit_raises:
  "run sorted_order [AddSyrup ''a'', AddSyrup ''b'', AddSyrup ''c'', AddSyrup ''d''] new_world
     = \<lparr>the_builder = four_syrups, orders = []\<rparr> \<and>
   ''a'' |\<in>| b_syrups four_syrups \<and>
   fcard (b_syrups four_syrups) = 4 \<and>
   add_syrup ''a'' four_syrups = (Some (ValueError ''Maximum 4 syrups allowed''), four_syrups)"
proof -
  have present: "''a'' |\<in>| b_syrups four_syrups"
    by (simp add: four_syrups_def)
  have raised: "add_syrup ''a'' four_syrups
      = (Some (ValueError ''Maximum 4 syrups allowed''), four_syrups)"
    by (rule add_syrup_raises) (simp add: fcard_four_syrups MAX_SYRUPS_def)
  show ?thesis
    by (intro conjI run_four_syrups fcard_four_syrups present raised)
qed

text \<open>
  Claim C9. \<^verbatim>\<open>add_syrup\<close> does not look at the name: with fewer than four names in the
  set it returns the builder with the name added, whatever the string is, and the only
  error it ever raises is the one of the limit, when the set has four names or more.
\<close>

theorem add_syrup_accepts_every_name:
  "(fcard (b_syrups b) < 4 \<longrightarrow>
      add_syrup name b = (None, b\<lparr>b_syrups := finsert name (b_syrups b)\<rparr>)) \<and>
   (\<forall>e. fst (add_syrup name b) = Some e \<longrightarrow>
      e = ValueError ''Maximum 4 syrups allowed'' \<and> 4 \<le> fcard (b_syrups b))"
proof (cases "fcard (b_syrups b) < 4")
  case True
  then have "add_syrup name b = (None, b\<lparr>b_syrups := finsert name (b_syrups b)\<rparr>)"
    by (intro add_syrup_returns) (simp add: MAX_SYRUPS_def)
  with True show ?thesis by simp
next
  case False
  then have "add_syrup name b = (Some (ValueError ''Maximum 4 syrups allowed''), b)"
    by (intro add_syrup_raises) (simp add: MAX_SYRUPS_def)
  with False show ?thesis by simp
qed

theorem add_syrup_accepts_every_name_witness:
  "fcard (b_syrups init) < 4 \<and>
   add_syrup [] init = (None, init\<lparr>b_syrups := finsert [] (b_syrups init)\<rparr>) \<and>
   add_syrup ''not in any catalog'' init
     = (None, init\<lparr>b_syrups := finsert ''not in any catalog'' (b_syrups init)\<rparr>) \<and>
   fst (add_syrup ''e'' four_syrups) = Some (ValueError ''Maximum 4 syrups allowed'') \<and>
   4 \<le> fcard (b_syrups four_syrups)"
proof -
  have small: "fcard (b_syrups init) < 4"
    by (simp add: init_def fcard_fempty)
  have raised: "fst (add_syrup ''e'' four_syrups) = Some (ValueError ''Maximum 4 syrups allowed'')"
    by (simp add: add_syrup_raises fcard_four_syrups MAX_SYRUPS_def)
  have empty_name: "add_syrup [] init = (None, init\<lparr>b_syrups := finsert [] (b_syrups init)\<rparr>)"
    using small add_syrup_accepts_every_name [where b = init and name = "[]"] by blast
  have other_name: "add_syrup ''not in any catalog'' init
      = (None, init\<lparr>b_syrups := finsert ''not in any catalog'' (b_syrups init)\<rparr>)"
    using small add_syrup_accepts_every_name [where b = init and name = "''not in any catalog''"]
    by blast
  have full: "4 \<le> fcard (b_syrups four_syrups)"
    using raised add_syrup_accepts_every_name [where b = four_syrups and name = "''e''"]
    by blast
  show ?thesis
    by (intro conjI small empty_name other_name raised full)
qed

section \<open>Calls that raise\<close>

text \<open>
  Claim C7. A call of \<^verbatim>\<open>set_base\<close>, \<^verbatim>\<open>set_size\<close>, \<^verbatim>\<open>set_milk\<close>, \<^verbatim>\<open>add_syrup\<close>,
  \<^verbatim>\<open>set_sugar\<close> or \<^verbatim>\<open>build\<close> that raises leaves the builder exactly as it was
  before the call; after a \<^verbatim>\<open>build\<close> that raises, the orders built before are
  unchanged too.
\<close>

theorem raising_call_leaves_state_unchanged:
  "(fst (set_base x b) \<noteq> None \<longrightarrow> snd (set_base x b) = b) \<and>
   (fst (set_size x b) \<noteq> None \<longrightarrow> snd (set_size x b) = b) \<and>
   (fst (set_milk x b) \<noteq> None \<longrightarrow> snd (set_milk x b) = b) \<and>
   (fst (add_syrup x b) \<noteq> None \<longrightarrow> snd (add_syrup x b) = b) \<and>
   (fst (set_sugar n b) \<noteq> None \<longrightarrow> snd (set_sugar n b) = b) \<and>
   (fst (step io Build w) \<noteq> None \<longrightarrow> snd (step io Build w) = w)"
  by (simp add: set_base_def set_size_def set_milk_def add_syrup_def set_sugar_def
      split: sum.split)

theorem raising_call_leaves_state_unchanged_witness:
  "fst (set_base ''tea'' latte_example) \<noteq> None \<and> snd (set_base ''tea'' latte_example) = latte_example \<and>
   fst (set_size ''huge'' latte_example) \<noteq> None \<and> snd (set_size ''huge'' latte_example) = latte_example \<and>
   fst (set_milk ''goat'' latte_example) \<noteq> None \<and> snd (set_milk ''goat'' latte_example) = latte_example \<and>
   fst (add_syrup ''e'' four_syrups) \<noteq> None \<and> snd (add_syrup ''e'' four_syrups) = four_syrups \<and>
   fst (set_sugar 6 latte_example) \<noteq> None \<and> snd (set_sugar 6 latte_example) = latte_example \<and>
   fst (step sorted_order Build new_world) \<noteq> None \<and> snd (step sorted_order Build new_world) = new_world"
proof -
  have f1: "fst (set_base ''tea'' latte_example) \<noteq> None"
    by (simp add: set_base_def has_key_BASE_PRICES)
  have f2: "fst (set_size ''huge'' latte_example) \<noteq> None"
    by (simp add: set_size_def has_key_SIZE_MULTIPLIERS)
  have f3: "fst (set_milk ''goat'' latte_example) \<noteq> None"
    by (simp add: set_milk_def has_key_MILK_PRICES)
  have f4: "fst (add_syrup ''e'' four_syrups) \<noteq> None"
    by (simp add: add_syrup_raises fcard_four_syrups MAX_SYRUPS_def)
  have f5: "fst (set_sugar 6 latte_example) \<noteq> None"
    by (simp add: set_sugar_def MAX_SUGAR_def)
  have f6: "fst (step sorted_order Build new_world) \<noteq> None"
    by (simp add: new_world_def init_def build_def)
  note unchanged = raising_call_leaves_state_unchanged
  have u1: "snd (set_base ''tea'' latte_example) = latte_example"
    using f1 unchanged [where x = "''tea''" and b = latte_example] by blast
  have u2: "snd (set_size ''huge'' latte_example) = latte_example"
    using f2 unchanged [where x = "''huge''" and b = latte_example] by blast
  have u3: "snd (set_milk ''goat'' latte_example) = latte_example"
    using f3 unchanged [where x = "''goat''" and b = latte_example] by blast
  have u4: "snd (add_syrup ''e'' four_syrups) = four_syrups"
    using f4 unchanged [where x = "''e''" and b = four_syrups] by blast
  have u5: "snd (set_sugar 6 latte_example) = latte_example"
    using f5 unchanged [where n = 6 and b = latte_example] by blast
  have u6: "snd (step sorted_order Build new_world) = new_world"
    using f6 unchanged [where io = sorted_order and w = new_world] by blast
  show ?thesis
    by (intro conjI f1 u1 f2 u2 f3 u3 f4 u4 f5 u5 f6 u6)
qed

section \<open>Building an order\<close>

lemma calculate_price_catalog:
  assumes "has_key BASE_PRICES base" and "has_key SIZE_MULTIPLIERS sz"
    and "has_key MILK_PRICES milk"
  shows "\<exists>bp m mp. map_of BASE_PRICES base = Some bp \<and> map_of SIZE_MULTIPLIERS sz = Some m \<and>
           map_of MILK_PRICES milk = Some mp \<and>
           calculate_price base sz milk syrups iced (Some catalog)
             = Inr (dadd (dmul (d_of_int (bp + mp + 40 * int (length syrups))) m)
                     (d_of_int (if iced then 20 else 0)))"
proof -
  from assms(1) obtain bp where bp: "map_of BASE_PRICES base = Some bp" "getitem BASE_PRICES base = Inr bp"
    using has_key_getitem by blast
  from assms(2) obtain m where m: "map_of SIZE_MULTIPLIERS sz = Some m" "getitem SIZE_MULTIPLIERS sz = Inr m"
    using has_key_getitem by blast
  from assms(3) obtain mp where mp: "map_of MILK_PRICES milk = Some mp" "getitem MILK_PRICES milk = Inr mp"
    using has_key_getitem by blast
  have "calculate_price base sz milk syrups iced (Some catalog)
      = Inr (dadd (dmul (d_of_int (bp + mp + 40 * int (length syrups))) m)
              (d_of_int (if iced then 20 else 0)))"
    by (simp add: calculate_price_def catalog_def bp(2) m(2) mp(2) SYRUP_PRICE_def ICE_PRICE_def)
  with bp(1) m(1) mp(1) show ?thesis by blast
qed

lemma build_unset_base: "b_base b = None \<Longrightarrow> build io b = Inl (ValueError ''Base is required'')"
  by (simp add: build_def)

lemma build_unset_size:
  "b_base b \<noteq> None \<Longrightarrow> b_size b = None \<Longrightarrow> build io b = Inl (ValueError ''Size is required'')"
  by (auto simp: build_def)

lemma build_set:
  assumes "b_base b = Some base" and "b_size b = Some sz"
    and "calculate_price base sz (b_milk b) (tuple_of io (b_syrups b)) (b_iced b) (Some catalog) = Inr p"
  shows "build io b = Inr \<lparr>o_base = base, o_size = sz, o_milk = b_milk b,
           o_syrups = tuple_of io (b_syrups b), o_sugar = b_sugar b, o_iced = b_iced b,
           o_price = p,
           o_description = generate_description base sz (b_milk b) (tuple_of io (b_syrups b))
             (b_sugar b) (b_iced b)\<rparr>"
  using assms by (simp add: build_def CoffeeOrder_def)

lemma reachable_price:
  assumes "reachable b" and "b_base b = Some base" and "b_size b = Some sz"
  shows "\<exists>bp m mp. map_of BASE_PRICES base = Some bp \<and> map_of SIZE_MULTIPLIERS sz = Some m \<and>
           map_of MILK_PRICES (b_milk b) = Some mp \<and>
           calculate_price base sz (b_milk b) (tuple_of io (b_syrups b)) (b_iced b) (Some catalog)
             = Inr (dadd (dmul (d_of_int (bp + mp + 40 * int (fcard (b_syrups b)))) m)
                     (d_of_int (if b_iced b then 20 else 0)))"
proof -
  from assms have "has_key BASE_PRICES base" "has_key SIZE_MULTIPLIERS sz"
    "has_key MILK_PRICES (b_milk b)"
    using reachable_inv [of b] by (simp_all add: builder_inv_def)
  from calculate_price_catalog [OF this, of "tuple_of io (b_syrups b)" "b_iced b"]
  show ?thesis by (simp add: length_tuple_of)
qed


lemma latte_example_calls:
  "latte_example = snd (set_iced True (snd (set_sugar 2 (snd (add_syrup ''vanilla''
     (snd (set_milk ''oat'' (snd (set_size ''medium'' (snd (set_base ''latte'' init)))))))))))"
  by (simp add: latte_example_def init_def set_base_def set_size_def set_milk_def add_syrup_def
      set_sugar_def set_iced_def has_key_BASE_PRICES has_key_SIZE_MULTIPLIERS
      has_key_MILK_PRICES MAX_SYRUPS_def MAX_SUGAR_def fcard_fempty)

lemma reachable_latte_example: "reachable latte_example"
  unfolding latte_example_calls
  by (intro r_set_iced r_set_sugar r_add_syrup r_set_milk r_set_size r_set_base r_init)

lemma latte_price:
  "calculate_price ''latte'' ''medium'' ''oat'' [''vanilla''] True (Some catalog)
     = Inr (Dbl 8796093022208000 (- 44))"
  by code_simp

lemma latte_description:
  "generate_description ''latte'' ''medium'' ''oat'' [''vanilla''] 2 True
     = ''medium latte with oat milk +vanilla (iced) 2 tsp sugar''"
  by code_simp

lemma build_latte_example: "build io latte_example = Inr latte_order"
  by (simp add: build_def latte_example_def CoffeeOrder_def latte_price latte_description
      latte_order_def)



lemma reachable_build:
  assumes "reachable b" and "b_base b = Some base" and "b_size b = Some sz"
  shows "\<exists>ord. build io b = Inr ord"
proof -
  from reachable_price [OF assms, of io] obtain p where
    "calculate_price base sz (b_milk b) (tuple_of io (b_syrups b)) (b_iced b) (Some catalog) = Inr p"
    by blast
  from build_set [OF assms(2,3) this] show ?thesis by blast
qed

text \<open>
  Claim C10. On every builder that a client can reach, the three subscripts of the price
  computation are defined: a base or a size that is set is a key of its dictionary, and
  so is the milk. \<^verbatim>\<open>build\<close> therefore never raises \<^verbatim>\<open>KeyError\<close> (nor
  \<^verbatim>\<open>TypeError\<close>, since it always passes a pricing dictionary).
\<close>

theorem build_lookups_are_defined:
  "reachable b \<Longrightarrow>
     (\<forall>base. b_base b = Some base \<longrightarrow> (\<exists>v. getitem BASE_PRICES base = Inr v)) \<and>
     (\<forall>sz. b_size b = Some sz \<longrightarrow> (\<exists>v. getitem SIZE_MULTIPLIERS sz = Inr v)) \<and>
     (\<exists>v. getitem MILK_PRICES (b_milk b) = Inr v) \<and>
     (\<forall>k. build io b \<noteq> Inl (KeyError k)) \<and>
     (\<forall>m. build io b \<noteq> Inl (TypeError m))"
proof -
  assume r: "reachable b"
  then have inv: "builder_inv b"
    by (rule reachable_inv)
  have base: "\<exists>v. getitem BASE_PRICES base = Inr v" if "b_base b = Some base" for base
    using inv that has_key_getitem [of BASE_PRICES base] by (auto simp: builder_inv_def)
  have sz: "\<exists>v. getitem SIZE_MULTIPLIERS sz = Inr v" if "b_size b = Some sz" for sz
    using inv that has_key_getitem [of SIZE_MULTIPLIERS sz] by (auto simp: builder_inv_def)
  have milk: "\<exists>v. getitem MILK_PRICES (b_milk b) = Inr v"
    using inv has_key_getitem [of MILK_PRICES "b_milk b"] by (auto simp: builder_inv_def)
  have no_error: "build io b \<noteq> Inl (KeyError k) \<and> build io b \<noteq> Inl (TypeError m)" for k m
  proof (cases "b_base b")
    case None
    then show ?thesis by (simp add: build_unset_base)
  next
    case some_base: (Some base)
    show ?thesis
    proof (cases "b_size b")
      case None
      with some_base show ?thesis by (simp add: build_unset_size)
    next
      case some_size: (Some sz)
      from reachable_build [OF r some_base some_size, of io] show ?thesis by auto
    qed
  qed
  show ?thesis
    using base sz milk no_error by blast
qed

theorem build_lookups_are_defined_witness:
  "reachable latte_example \<and> b_base latte_example = Some ''latte'' \<and>
   b_size latte_example = Some ''medium'' \<and>
   (\<exists>v. getitem BASE_PRICES ''latte'' = Inr v) \<and>
   (\<exists>v. getitem SIZE_MULTIPLIERS ''medium'' = Inr v) \<and>
   (\<exists>v. getitem MILK_PRICES (b_milk latte_example) = Inr v) \<and>
   build sorted_order latte_example \<noteq> Inl (KeyError ''latte'')"
proof -
  note main = build_lookups_are_defined [OF reachable_latte_example, of sorted_order]
  have l: "b_base latte_example = Some ''latte''" "b_size latte_example = Some ''medium''"
    by (simp_all add: latte_example_def)
  have 1: "\<exists>v. getitem BASE_PRICES ''latte'' = Inr v"
    using l main by blast
  have 2: "\<exists>v. getitem SIZE_MULTIPLIERS ''medium'' = Inr v"
    using l main by blast
  have 3: "\<exists>v. getitem MILK_PRICES (b_milk latte_example) = Inr v"
    using main by blast
  have 4: "build sorted_order latte_example \<noteq> Inl (KeyError ''latte'')"
    using main by blast
  show ?thesis
    by (intro conjI reachable_latte_example l 1 2 3 4)
qed

section \<open>Orders and the builder that built them\<close>












section \<open>The price\<close>

subsection \<open>The floating-point literals and the prices of the catalog\<close>

lemma lit_1_0_value: "valof lit_1_0 = 1"
  by code_simp

lemma lit_1_2_nearest:
  "bit_length (mant lit_1_2) = 53 \<and> \<bar>valof lit_1_2 - 12 / 10\<bar> < 1 / 2 ^ 53"
  by code_simp

lemma lit_1_4_nearest:
  "bit_length (mant lit_1_4) = 53 \<and> \<bar>valof lit_1_4 - 14 / 10\<bar> < 1 / 2 ^ 53"
  by code_simp

text \<open>The products are floating-point products: \<^verbatim>\<open>350 * 1.4\<close> is less than 490.\<close>

lemma product_is_rounded: "valof (dmul (d_of_int 350) lit_1_4) < 350 * (14 / 10)"
  by code_simp

lemma price_check_1_0: "list_all (price_check lit_1_0) all_sums"
  by code_simp

lemma price_check_1_2: "list_all (price_check lit_1_2) all_sums"
  by code_simp

lemma price_check_1_4: "list_all (price_check lit_1_4) all_sums"
  by code_simp

lemma plain_check_1_0: "list_all (plain_check lit_1_0) (map snd BASE_PRICES)"
  by code_simp

lemma plain_check_1_2: "list_all (plain_check lit_1_2) (map snd BASE_PRICES)"
  by code_simp

lemma plain_check_1_4: "list_all (plain_check lit_1_4) (map snd BASE_PRICES)"
  by code_simp

lemma multiplier_cases:
  "map_of SIZE_MULTIPLIERS sz = Some m \<Longrightarrow> m = lit_1_0 \<or> m = lit_1_2 \<or> m = lit_1_4"
  by (auto simp: SIZE_MULTIPLIERS_def split: if_splits)

lemma in_all_sums:
  "bp \<in> set (map snd BASE_PRICES) \<Longrightarrow> mp \<in> set (map snd MILK_PRICES) \<Longrightarrow> 0 \<le> n \<Longrightarrow> n \<le> 4
     \<Longrightarrow> bp + mp + 40 * n \<in> set all_sums"
  by (force simp: all_sums_def)

lemma map_of_snd: "map_of d k = Some v \<Longrightarrow> v \<in> set (map snd d)"
  by (force dest: map_of_SomeD)

lemma price_check_catalog:
  assumes "map_of BASE_PRICES base = Some bp" and "map_of SIZE_MULTIPLIERS sz = Some m"
    and "map_of MILK_PRICES milk = Some mp" and "0 \<le> n" and "n \<le> 4"
  shows "price_check m (bp + mp + 40 * n)"
proof -
  have s: "bp + mp + 40 * n \<in> set all_sums"
    using assms by (intro in_all_sums map_of_snd [of _ base] map_of_snd [of _ milk])
  from multiplier_cases [OF assms(2)] show ?thesis
    using s price_check_1_0 price_check_1_2 price_check_1_4 by (auto simp: list_all_iff)
qed

lemma plain_check_catalog:
  assumes "map_of BASE_PRICES base = Some bp" and "map_of SIZE_MULTIPLIERS sz = Some m"
  shows "plain_check m bp"
proof -
  have s: "bp \<in> set (map snd BASE_PRICES)"
    using assms(1) by (rule map_of_snd)
  from multiplier_cases [OF assms(2)] show ?thesis
    using s plain_check_1_0 plain_check_1_2 plain_check_1_4 by (auto simp: list_all_iff)
qed

lemma calculate_price_map_of:
  assumes "map_of BASE_PRICES base = Some bp" and "map_of SIZE_MULTIPLIERS sz = Some m"
    and "map_of MILK_PRICES milk = Some mp"
  shows "calculate_price base sz milk syrups iced (Some catalog)
           = Inr (price_of_sum m iced (bp + mp + 40 * int (length syrups)))"
  using assms
  by (simp add: calculate_price_def catalog_def getitem_def SYRUP_PRICE_def ICE_PRICE_def
      price_of_sum_def)

subsection \<open>The order of the first test\<close>

lemma run_latte_calls:
  "run io [SetBase ''latte'', SetSize ''medium'', SetMilk ''oat'', AddSyrup ''vanilla'',
      SetSugar 2, SetIced True] new_world = latte_world"
  by (simp add: new_world_def latte_world_def latte_example_def init_def on_builder_def
      set_base_def set_size_def set_milk_def add_syrup_def set_sugar_def set_iced_def
      has_key_BASE_PRICES has_key_SIZE_MULTIPLIERS has_key_MILK_PRICES MAX_SYRUPS_def
      MAX_SUGAR_def fcard_fempty)

lemma latte_price_value: "valof (o_price latte_order) = 500"
  by code_simp

lemma latte_text:
  "str_order latte_order = ''medium latte with oat milk +vanilla (iced) 2 tsp sugar''"
  by code_simp

lemma latte_text_contains:
  "contains ''medium latte'' ''medium latte with oat milk +vanilla (iced) 2 tsp sugar''"
  "contains ''oat'' ''medium latte with oat milk +vanilla (iced) 2 tsp sugar''"
  "contains ''vanilla'' ''medium latte with oat milk +vanilla (iced) 2 tsp sugar''"
  "contains ''(iced)'' ''medium latte with oat milk +vanilla (iced) 2 tsp sugar''"
  by code_simp+

text \<open>
  Claim C2, as stated: the order built with base \<open>latte\<close>, size \<open>medium\<close>, milk
  \<open>oat\<close>, the syrup \<open>vanilla\<close>, two spoons of sugar and ice has the price 512.0.
  It does not: the price of that order is not 512.
\<close>

theorem latte_example_price_is_not_512:
  "build sorted_order latte_example = Inr latte_order \<and> valof (o_price latte_order) \<noteq> 512"
  by (simp add: build_latte_example latte_price_value)

text \<open>
  Claim C2, amended. The six calls of the first test lead to that builder; the order it
  builds has the price \<open>(300 + 60 + 40) * 1.2 + 20\<close>, which is 500.0, and its text
  contains \<open>medium latte\<close>, \<open>oat\<close>, \<open>vanilla\<close> and \<open>(iced)\<close>.
\<close>

theorem latte_example_price_and_text:
  "run io [SetBase ''latte'', SetSize ''medium'', SetMilk ''oat'', AddSyrup ''vanilla'',
      SetSugar 2, SetIced True] new_world = latte_world \<and>
   the_builder latte_world = latte_example \<and>
   build io latte_example = Inr latte_order \<and>
   o_price latte_order = dadd (dmul (d_of_int (300 + 60 + 40)) lit_1_2) (d_of_int 20) \<and>
   valof (o_price latte_order) = 500 \<and>
   contains ''medium latte'' (str_order latte_order) \<and>
   contains ''oat'' (str_order latte_order) \<and>
   contains ''vanilla'' (str_order latte_order) \<and>
   contains ''(iced)'' (str_order latte_order)"
proof -
  have formula: "o_price latte_order = dadd (dmul (d_of_int (300 + 60 + 40)) lit_1_2) (d_of_int 20)"
    by code_simp
  have builder: "the_builder latte_world = latte_example"
    by (simp add: latte_world_def)
  show ?thesis
    unfolding latte_text
    by (intro conjI run_latte_calls builder build_latte_example formula latte_price_value
        latte_text_contains)
qed

subsection \<open>The formula\<close>

text \<open>
  Claim C3. For every order built from valid selections, that is, by a builder that a
  client can reach, with its base and size set: the price is the sum of the base price,
  the milk price and 40 for each syrup of the set, times the size multiplier, plus 20
  when the order is iced (and plus 0 when it is not), with the values of the catalog as
  listed. The multiplication and the addition are those of floating-point numbers. The
  sugar does not enter the price: the same builder with any other sugar value builds an
  order of the same price.
\<close>

theorem build_price_formula:
  "reachable b \<Longrightarrow> b_base b = Some base \<Longrightarrow> b_size b = Some sz \<Longrightarrow>
     \<exists>ord bp m mp. build io b = Inr ord \<and>
       (base, bp) \<in> set [(''espresso'', 200), (''americano'', 250), (''latte'', 300),
                         (''cappuccino'', 320)] \<and>
       (sz, m) \<in> set [(''small'', lit_1_0), (''medium'', lit_1_2), (''large'', lit_1_4)] \<and>
       (b_milk b, mp) \<in> set [(''whole'', 30), (''skim'', 30), (''oat'', 60), (''soy'', 50),
                             (''none'', 0)] \<and>
       o_price ord = dadd (dmul (d_of_int (bp + mp + 40 * int (fcard (b_syrups b)))) m)
                       (d_of_int (if b_iced b then 20 else 0)) \<and>
       (\<forall>n. \<exists>ord'. build io (b\<lparr>b_sugar := n\<rparr>) = Inr ord' \<and> o_price ord' = o_price ord)"
proof -
  assume r: "reachable b" and base: "b_base b = Some base" and sz: "b_size b = Some sz"
  from reachable_price [OF r base sz, of io] obtain bp m mp where
    bp: "map_of BASE_PRICES base = Some bp" and m: "map_of SIZE_MULTIPLIERS sz = Some m"
    and mp: "map_of MILK_PRICES (b_milk b) = Some mp"
    and p: "calculate_price base sz (b_milk b) (tuple_of io (b_syrups b)) (b_iced b) (Some catalog)
      = Inr (dadd (dmul (d_of_int (bp + mp + 40 * int (fcard (b_syrups b)))) m)
              (d_of_int (if b_iced b then 20 else 0)))"
    by blast
  let ?p = "dadd (dmul (d_of_int (bp + mp + 40 * int (fcard (b_syrups b)))) m)
              (d_of_int (if b_iced b then 20 else 0))"
  let ?ord = "\<lambda>n. \<lparr>o_base = base, o_size = sz, o_milk = b_milk b,
      o_syrups = tuple_of io (b_syrups b), o_sugar = n, o_iced = b_iced b, o_price = ?p,
      o_description = generate_description base sz (b_milk b) (tuple_of io (b_syrups b)) n
        (b_iced b)\<rparr>"
  have built: "build io (b\<lparr>b_sugar := n\<rparr>) = Inr (?ord n)" for n
    using base sz p by (simp add: build_def CoffeeOrder_def)
  from built [of "b_sugar b"] have built_b: "build io b = Inr (?ord (b_sugar b))"
    by simp
  have 1: "(base, bp) \<in> set [(''espresso'', 200), (''americano'', 250), (''latte'', 300),
      (''cappuccino'', 320)]"
    using map_of_SomeD [OF bp] by (simp add: BASE_PRICES_def)
  have 2: "(sz, m) \<in> set [(''small'', lit_1_0), (''medium'', lit_1_2), (''large'', lit_1_4)]"
    using map_of_SomeD [OF m] by (simp add: SIZE_MULTIPLIERS_def)
  have 3: "(b_milk b, mp) \<in> set [(''whole'', 30), (''skim'', 30), (''oat'', 60), (''soy'', 50),
      (''none'', 0)]"
    using map_of_SomeD [OF mp] by (simp add: MILK_PRICES_def)
  have 4: "o_price (?ord (b_sugar b)) = ?p"
    by simp
  have 5: "\<forall>n. \<exists>ord'. build io (b\<lparr>b_sugar := n\<rparr>) = Inr ord' \<and>
      o_price ord' = o_price (?ord (b_sugar b))"
    using built by simp
  from built_b 1 2 3 4 5 show ?thesis
    by blast
qed

theorem build_price_formula_witness:
  "reachable latte_example \<and> b_base latte_example = Some ''latte'' \<and>
   b_size latte_example = Some ''medium'' \<and>
   o_price latte_order = dadd (dmul (d_of_int (300 + 60 + 40 * 1)) lit_1_2) (d_of_int 20)"
proof -
  have l: "b_base latte_example = Some ''latte''" "b_size latte_example = Some ''medium''"
    by (simp_all add: latte_example_def)
  from build_price_formula [OF reachable_latte_example l, of sorted_order]
  obtain ord bp m mp where
    built: "build sorted_order latte_example = Inr ord"
    and bp: "(''latte'', bp) \<in> set [(''espresso'', 200), (''americano'', 250), (''latte'', 300),
        (''cappuccino'', 320)]"
    and m: "(''medium'', m) \<in> set [(''small'', lit_1_0), (''medium'', lit_1_2), (''large'', lit_1_4)]"
    and mp: "(b_milk latte_example, mp) \<in> set [(''whole'', 30), (''skim'', 30), (''oat'', 60),
        (''soy'', 50), (''none'', 0)]"
    and p: "o_price ord = dadd (dmul (d_of_int (bp + mp + 40 * int (fcard (b_syrups latte_example)))) m)
        (d_of_int (if b_iced latte_example then 20 else 0))"
    by blast
  from built have "ord = latte_order"
    by (simp add: build_latte_example)
  with bp m mp p have "o_price latte_order
      = dadd (dmul (d_of_int (300 + 60 + 40 * 1)) lit_1_2) (d_of_int 20)"
    by (simp add: latte_example_def fcard_finsert_if fcard_fempty)
  with reachable_latte_example l show ?thesis
    by blast
qed

subsection \<open>Positive prices, and the price of ice\<close>

text \<open>
  Claim C4. For every valid combination (a base, a size and a milk of the catalog, at
  most four different syrups, sugar between 0 and 5), the orders with and without ice
  are constructed, the price is greater than zero, and the price with ice is greater
  than the price without ice.
\<close>

theorem price_positive_and_greater_with_ice:
  assumes "has_key BASE_PRICES base" and "has_key SIZE_MULTIPLIERS sz"
    and "has_key MILK_PRICES milk"
    and "distinct syrups" and "length syrups \<le> 4" and "0 \<le> sugar" and "sugar \<le> 5"
  shows "\<exists>plain iced.
           CoffeeOrder base sz milk syrups sugar False (Some catalog) = Inr plain \<and>
           CoffeeOrder base sz milk syrups sugar True (Some catalog) = Inr iced \<and>
           0 < valof (o_price plain) \<and> 0 < valof (o_price iced) \<and>
           valof (o_price plain) < valof (o_price iced)"
proof -
  from assms(1) obtain bp where bp: "map_of BASE_PRICES base = Some bp"
    using has_key_getitem by blast
  from assms(2) obtain m where m: "map_of SIZE_MULTIPLIERS sz = Some m"
    using has_key_getitem by blast
  from assms(3) obtain mp where mp: "map_of MILK_PRICES milk = Some mp"
    using has_key_getitem by blast
  let ?s = "bp + mp + 40 * int (length syrups)"
  have price: "calculate_price base sz milk syrups iced (Some catalog)
      = Inr (price_of_sum m iced ?s)" for iced
    by (rule calculate_price_map_of [OF bp m mp])
  have "price_check m ?s"
    using assms(5) by (intro price_check_catalog [OF bp m mp]) simp_all
  then have pos: "0 < valof (price_of_sum m False ?s)"
    and less: "valof (price_of_sum m False ?s) < valof (price_of_sum m True ?s)"
    by (simp_all add: price_check_def)
  from pos less have pos_iced: "0 < valof (price_of_sum m True ?s)"
    by simp
  let ?ord = "\<lambda>iced. \<lparr>o_base = base, o_size = sz, o_milk = milk, o_syrups = syrups,
      o_sugar = sugar, o_iced = iced, o_price = price_of_sum m iced ?s,
      o_description = generate_description base sz milk syrups sugar iced\<rparr>"
  have built: "CoffeeOrder base sz milk syrups sugar iced (Some catalog) = Inr (?ord iced)" for iced
    by (simp add: CoffeeOrder_def price)
  have "CoffeeOrder base sz milk syrups sugar False (Some catalog) = Inr (?ord False) \<and>
      CoffeeOrder base sz milk syrups sugar True (Some catalog) = Inr (?ord True) \<and>
      0 < valof (o_price (?ord False)) \<and> 0 < valof (o_price (?ord True)) \<and>
      valof (o_price (?ord False)) < valof (o_price (?ord True))"
    using built pos pos_iced less by simp
  then show ?thesis
    by blast
qed

theorem price_positive_and_greater_with_ice_witness:
  "has_key BASE_PRICES ''cappuccino'' \<and> has_key SIZE_MULTIPLIERS ''large'' \<and>
   has_key MILK_PRICES ''oat'' \<and> distinct [''a'', ''b'', ''c'', ''d''] \<and>
   length [''a'', ''b'', ''c'', ''d''] \<le> 4 \<and> (0::int) \<le> 5 \<and> (5::int) \<le> 5 \<and>
   (\<exists>plain iced.
      CoffeeOrder ''cappuccino'' ''large'' ''oat'' [''a'', ''b'', ''c'', ''d''] 5 False (Some catalog)
        = Inr plain \<and>
      CoffeeOrder ''cappuccino'' ''large'' ''oat'' [''a'', ''b'', ''c'', ''d''] 5 True (Some catalog)
        = Inr iced \<and>
      0 < valof (o_price plain) \<and> 0 < valof (o_price iced) \<and>
      valof (o_price plain) < valof (o_price iced))"
proof -
  have k: "has_key BASE_PRICES ''cappuccino''" "has_key SIZE_MULTIPLIERS ''large''"
    "has_key MILK_PRICES ''oat''"
    by (simp_all add: has_key_BASE_PRICES has_key_SIZE_MULTIPLIERS has_key_MILK_PRICES)
  have s: "distinct [''a'', ''b'', ''c'', ''d'']" "length [''a'', ''b'', ''c'', ''d''] \<le> 4"
    by simp_all
  have n: "(0::int) \<le> 5" "(5::int) \<le> 5"
    by simp_all
  from price_positive_and_greater_with_ice [OF k s n] k s n show ?thesis
    by blast
qed

subsection \<open>Clearing the extras\<close>

text \<open>
  Claim C6. \<^verbatim>\<open>clear_extras\<close> never raises; it sets the milk to \<open>none\<close>, empties the
  set of syrups, sets the sugar to 0 and the ice flag to false, and leaves the base and
  the size as they are. A \<^verbatim>\<open>build\<close> right after it, on a builder that a client can
  reach, with base and size set, gives an order whose price is the base price times the
  size multiplier (the floating-point product).
\<close>

theorem clear_extras_resets_extras_only:
  "fst (clear_extras b) = None \<and>
   b_milk (snd (clear_extras b)) = ''none'' \<and>
   b_syrups (snd (clear_extras b)) = {||} \<and>
   b_sugar (snd (clear_extras b)) = 0 \<and>
   b_iced (snd (clear_extras b)) = False \<and>
   b_base (snd (clear_extras b)) = b_base b \<and>
   b_size (snd (clear_extras b)) = b_size b \<and>
   (reachable b \<and> b_base b = Some base \<and> b_size b = Some sz \<longrightarrow>
      (\<exists>ord bp m. build io (snd (clear_extras b)) = Inr ord \<and>
         getitem BASE_PRICES base = Inr bp \<and> getitem SIZE_MULTIPLIERS sz = Inr m \<and>
         valof (o_price ord) = valof (dmul (d_of_int bp) m)))"
proof -
  let ?c = "snd (clear_extras b)"
  have frame: "fst (clear_extras b) = None" "b_milk ?c = ''none''" "b_syrups ?c = {||}"
    "b_sugar ?c = 0" "b_iced ?c = False" "b_base ?c = b_base b" "b_size ?c = b_size b"
    by (simp_all add: clear_extras_def)
  have price: "\<exists>ord bp m. build io ?c = Inr ord \<and>
      getitem BASE_PRICES base = Inr bp \<and> getitem SIZE_MULTIPLIERS sz = Inr m \<and>
      valof (o_price ord) = valof (dmul (d_of_int bp) m)"
    if r: "reachable b" and base: "b_base b = Some base" and sz: "b_size b = Some sz"
  proof -
    from r have rc: "reachable ?c"
      by (rule r_clear_extras)
    from base sz have cb: "b_base ?c = Some base" and cs: "b_size ?c = Some sz"
      by (simp_all add: frame)
    from reachable_price [OF rc cb cs, of io] obtain bp m mp where
      bp: "map_of BASE_PRICES base = Some bp" and m: "map_of SIZE_MULTIPLIERS sz = Some m"
      and mp: "map_of MILK_PRICES (b_milk ?c) = Some mp"
      by blast
    from mp have mp0: "mp = 0"
      by (simp add: frame MILK_PRICES_def)
    have "calculate_price base sz (b_milk ?c) (tuple_of io (b_syrups ?c)) (b_iced ?c) (Some catalog)
        = Inr (price_of_sum m (b_iced ?c) (bp + mp + 40 * int (length (tuple_of io (b_syrups ?c)))))"
      by (rule calculate_price_map_of [OF bp m mp])
    then have p: "calculate_price base sz (b_milk ?c) (tuple_of io (b_syrups ?c)) (b_iced ?c)
        (Some catalog) = Inr (price_of_sum m False bp)"
      by (simp add: frame mp0)
    from build_set [OF cb cs p] obtain ord where
      built: "build io ?c = Inr ord" and op: "o_price ord = price_of_sum m False bp"
      by simp
    from plain_check_catalog [OF bp m] have "valof (price_of_sum m False bp) = valof (dmul (d_of_int bp) m)"
      by (simp add: plain_check_def)
    with op have v: "valof (o_price ord) = valof (dmul (d_of_int bp) m)"
      by simp
    from bp m have "getitem BASE_PRICES base = Inr bp" "getitem SIZE_MULTIPLIERS sz = Inr m"
      by (simp_all add: getitem_def)
    with built v show ?thesis
      by blast
  qed
  from frame price show ?thesis
    by blast
qed

theorem clear_extras_resets_extras_only_witness:
  "reachable latte_example \<and> b_base latte_example = Some ''latte'' \<and>
   b_size latte_example = Some ''medium'' \<and>
   snd (clear_extras latte_example) = latte_example\<lparr>b_milk := ''none'', b_syrups := {||},
     b_sugar := 0, b_iced := False\<rparr> \<and>
   (\<exists>ord. build sorted_order (snd (clear_extras latte_example)) = Inr ord \<and>
      valof (o_price ord) = valof (dmul (d_of_int 300) lit_1_2) \<and> valof (o_price ord) = 360)"
proof -
  have l: "b_base latte_example = Some ''latte''" "b_size latte_example = Some ''medium''"
    by (simp_all add: latte_example_def)
  have c: "snd (clear_extras latte_example) = latte_example\<lparr>b_milk := ''none'', b_syrups := {||},
      b_sugar := 0, b_iced := False\<rparr>"
    by (simp add: clear_extras_def)
  have bp: "getitem BASE_PRICES ''latte'' = Inr bp \<Longrightarrow> bp = 300" for bp
    by (simp add: getitem_def BASE_PRICES_def)
  have m: "getitem SIZE_MULTIPLIERS ''medium'' = Inr m \<Longrightarrow> m = lit_1_2" for m
    by (simp add: getitem_def SIZE_MULTIPLIERS_def)
  have v: "valof (dmul (d_of_int 300) lit_1_2) = 360"
    by code_simp
  from clear_extras_resets_extras_only [where b = latte_example and base = "''latte''"
      and sz = "''medium''" and io = sorted_order] reachable_latte_example l
  obtain ord bp' m' where
    "build sorted_order (snd (clear_extras latte_example)) = Inr ord"
    "getitem BASE_PRICES ''latte'' = Inr bp'" "getitem SIZE_MULTIPLIERS ''medium'' = Inr m'"
    "valof (o_price ord) = valof (dmul (d_of_int bp') m')"
    by blast
  with bp [of bp'] m [of m'] v
  have "\<exists>ord. build sorted_order (snd (clear_extras latte_example)) = Inr ord \<and>
      valof (o_price ord) = valof (dmul (d_of_int 300) lit_1_2) \<and> valof (o_price ord) = 360"
    by auto
  with reachable_latte_example l c show ?thesis
    by blast
qed

end
